theory Spec2Isabelle
  imports Complex_Main
begin

section \<open>Tensors of the autograd notebook\<close>

text \<open>
  The notebook \<^verbatim>\<open>autogradyt_tutorial.ipynb\<close> composes elementwise operations on
  one-dimensional tensors and asks for derivatives of the functions it composes.
  A tensor is modelled by the list of its elements. Elements are real numbers: the
  arithmetic of the model is exact, it has no rounding, no overflow and no NaN.
\<close>

type_synonym tensor = "real list"

text \<open>\<^verbatim>\<open>torch.linspace(start, end, steps)\<close>: \<open>steps\<close> evenly spaced points, both ends included.\<close>

definition linspace :: "real \<Rightarrow> real \<Rightarrow> nat \<Rightarrow> tensor" where
  "linspace start stop steps =
     map (\<lambda>i. start + real i * ((stop - start) / real (steps - 1))) [0..<steps]"

text \<open>\<^verbatim>\<open>torch.sin(a)\<close> and \<^verbatim>\<open>x.exp()\<close>, elementwise.\<close>

definition sin_t :: "tensor \<Rightarrow> tensor" where
  "sin_t a = map sin a"

definition exp_t :: "tensor \<Rightarrow> tensor" where
  "exp_t x = map exp x"

text \<open>\<^verbatim>\<open>k * b\<close> (a Python number times a tensor) and \<^verbatim>\<open>x * k\<close> (a tensor times a number).\<close>

definition scalar_mul :: "real \<Rightarrow> tensor \<Rightarrow> tensor" where
  "scalar_mul k b = map (\<lambda>v. k * v) b"

definition mul_scalar :: "tensor \<Rightarrow> real \<Rightarrow> tensor" where
  "mul_scalar x k = map (\<lambda>v. v * k) x"

text \<open>\<^verbatim>\<open>c + k\<close> with a Python number \<open>k\<close>, and \<^verbatim>\<open>d.sum()\<close>.\<close>

definition add_scalar :: "tensor \<Rightarrow> real \<Rightarrow> tensor" where
  "add_scalar c k = map (\<lambda>v. v + k) c"

definition sum_t :: "tensor \<Rightarrow> real" where
  "sum_t d = sum_list d"

text \<open>
  \<^verbatim>\<open>x + y\<close> on two one-dimensional tensors. Tensors of the same length are added
  elementwise; a tensor of one element is broadcast along the other one; any other pair
  of lengths raises a \<^verbatim>\<open>RuntimeError\<close>, which is the value \<open>None\<close>.
\<close>

definition add_t :: "tensor \<Rightarrow> tensor \<Rightarrow> tensor option" where
  "add_t x y =
     (if length x = length y then Some (map2 (+) x y)
      else if length x = 1 then Some (map (\<lambda>v. hd x + v) y)
      else if length y = 1 then Some (map (\<lambda>v. v + hd y) x)
      else None)"

text \<open>\<^verbatim>\<open>y.data.norm()\<close>: the Euclidean norm of the elements.\<close>

definition norm_t :: "tensor \<Rightarrow> real" where
  "norm_t y = sqrt (sum_list (map (\<lambda>v. v\<^sup>2) y))"


section \<open>The first example: cells 5 to 13\<close>

text \<open>
  \<^verbatim>\<open>a = torch.linspace(0., 2. * math.pi, steps=25, requires_grad=True)\<close>
\<close>

definition a_input :: tensor where
  "a_input = linspace 0 (2 * pi) 25"

text \<open>
  \<^verbatim>\<open>b = torch.sin(a); c = 2 * b; d = c + 1; out = d.sum()\<close>, as a function of the
  input tensor.
\<close>

definition out_of :: "tensor \<Rightarrow> real" where
  "out_of a = (let b = sin_t a; c = scalar_mul 2 b; d = add_scalar c 1 in sum_t d)"

text \<open>
  What \<^verbatim>\<open>out.backward()\<close> leaves in \<^verbatim>\<open>a.grad\<close> for a scalar \<open>out = f a\<close>: a tensor of the
  shape of \<open>a\<close> whose element \<open>i\<close> is the partial derivative of \<open>f\<close> in the \<open>i\<close>-th
  element of \<open>a\<close>. The engine that computes it belongs to the library; the notebook
  fixes only the function \<open>f\<close> that is differentiated.
\<close>

definition is_grad :: "(tensor \<Rightarrow> real) \<Rightarrow> tensor \<Rightarrow> tensor \<Rightarrow> bool" where
  "is_grad f a g \<longleftrightarrow> length g = length a \<and>
     (\<forall>i<length a. ((\<lambda>t. f (a[i := t])) has_real_derivative g ! i) (at (a ! i)))"


section \<open>Repeated doubling: cells 42 and 50\<close>

text \<open>
  \<^verbatim>\<open>while y.data.norm() < 1000: y = y * 2\<close>. The loop has no bound on its number of
  rounds, so it is a partial function: \<open>None\<close> is the run that never leaves the loop.
\<close>

partial_function (option) doubling_loop :: "tensor \<Rightarrow> tensor option" where
  "doubling_loop y = (if norm_t y < 1000 then doubling_loop (mul_scalar y 2) else Some y)"

text \<open>
  \<^verbatim>\<open>def do_some_doubling(x): y = x * 2; while ...: y = y * 2; return y\<close>. Cell 42
  runs the same three statements inline on its own \<open>x\<close>.
\<close>

definition do_some_doubling :: "tensor \<Rightarrow> tensor option" where
  "do_some_doubling x = doubling_loop (mul_scalar x 2)"


section \<open>The Jacobian of \<open>exp_adder\<close>: cells 46 and 48\<close>

text \<open>\<^verbatim>\<open>def exp_adder(x, y): return 2 * x.exp() + 3 * y\<close>\<close>

definition exp_adder :: "tensor \<Rightarrow> tensor \<Rightarrow> tensor option" where
  "exp_adder x y = add_t (scalar_mul 2 (exp_t x)) (scalar_mul 3 y)"

text \<open>
  The Jacobian of a tensor-valued \<open>f\<close> at \<open>x\<close>: one row per element of the output, one
  column per element of the input, entry \<open>(i, j)\<close> the partial derivative of output
  \<open>i\<close> in input \<open>j\<close>. The function has to return at \<open>x\<close>, and its output has to have
  an element: the call builds the matrix by stacking one row per output element and
  raises a \<^verbatim>\<open>RuntimeError\<close> when there is no row to stack, so an empty output has no
  Jacobian.
\<close>

definition is_jacobian :: "(tensor \<Rightarrow> tensor option) \<Rightarrow> tensor \<Rightarrow> real list list \<Rightarrow> bool" where
  "is_jacobian f x J \<longleftrightarrow>
     (\<exists>out. f x = Some out \<and> out \<noteq> [] \<and> length J = length out \<and>
        (\<forall>i<length out. length (J ! i) = length x \<and>
           (\<forall>j<length x.
              ((\<lambda>t. the (f (x[j := t])) ! i) has_real_derivative J ! i ! j) (at (x ! j)))))"

text \<open>
  \<^verbatim>\<open>torch.autograd.functional.jacobian(f, (x, y))\<close> returns a pair: the Jacobian in the
  first argument and the Jacobian in the second one. It returns only when both exist.
\<close>

definition jacobian_pair ::
  "(tensor \<Rightarrow> tensor \<Rightarrow> tensor option) \<Rightarrow> tensor \<Rightarrow> tensor \<Rightarrow>
     real list list \<times> real list list \<Rightarrow> bool" where
  "jacobian_pair f x y JJ \<longleftrightarrow>
     is_jacobian (\<lambda>x'. f x' y) x (fst JJ) \<and> is_jacobian (\<lambda>y'. f x y') y (snd JJ)"



section \<open>The gradient of the first example\<close>

lemma out_of_update:
  assumes "i < length a"
  shows "out_of (a[i := t]) =
     sum_list (map (\<lambda>v. 2 * sin v + 1) (take i a)) + (2 * sin t + 1) +
     sum_list (map (\<lambda>v. 2 * sin v + 1) (drop (Suc i) a))"
  using assms
  by (simp add: out_of_def sin_t_def scalar_mul_def add_scalar_def sum_t_def
      upd_conv_take_nth_drop comp_def)

lemma out_of_partial:
  assumes "i < length a"
  shows "((\<lambda>t. out_of (a[i := t])) has_real_derivative 2 * cos (a ! i)) (at (a ! i))"
proof -
  have "((\<lambda>t. sum_list (map (\<lambda>v. 2 * sin v + 1) (take i a)) + (2 * sin t + 1) +
          sum_list (map (\<lambda>v. 2 * sin v + 1) (drop (Suc i) a)))
        has_real_derivative 2 * cos (a ! i)) (at (a ! i))"
    by (auto intro!: derivative_eq_intros)
  then show ?thesis
    using assms by (simp add: out_of_update)
qed

lemma is_grad_unique:
  assumes "is_grad f a g" and "is_grad f a h"
  shows "g = h"
proof (rule nth_equalityI)
  show "length g = length h" using assms by (simp add: is_grad_def)
next
  fix i assume "i < length g"
  then have i: "i < length a" using assms(1) by (simp add: is_grad_def)
  from assms i show "g ! i = h ! i"
    unfolding is_grad_def by (blast intro: DERIV_unique)
qed

lemma out_of_is_grad: "is_grad out_of a (map (\<lambda>x. 2 * cos x) a)"
  by (simp add: is_grad_def out_of_partial)

text \<open>
  Claim C1. For \<open>out = sum (2 * sin a + 1)\<close> the gradient in \<open>a\<close> exists and is the
  tensor whose element \<open>i\<close> is \<open>2 * cos (a[i])\<close>: the factor 2 stays, the added constant 1
  does not show. This holds at every input tensor \<open>a\<close>, the 25 points of the notebook
  among them.
\<close>

theorem backward_grad_sin:
  "is_grad out_of a g \<longleftrightarrow> g = map (\<lambda>x. 2 * cos x) a"
  using is_grad_unique [OF _ out_of_is_grad] out_of_is_grad by blast

theorem backward_grad_sin_witness:
  "length a_input = 25 \<and> is_grad out_of a_input (map (\<lambda>x. 2 * cos x) a_input) \<and>
   map (\<lambda>x. 2 * cos x) a_input ! 0 = 2 \<and> map (\<lambda>x. 2 * cos x) a_input ! 6 = 0 \<and>
   map (\<lambda>x. 2 * cos x) a_input ! 12 = - 2"
  using backward_grad_sin [of a_input "map (\<lambda>x. 2 * cos x) a_input"]
  by (simp add: a_input_def linspace_def)


section \<open>Termination of the doubling loop\<close>

lemma sum_sq_mul_scalar:
  "sum_list (map (\<lambda>v. v\<^sup>2) (mul_scalar y k)) = k\<^sup>2 * sum_list (map (\<lambda>v. v\<^sup>2) y)"
  by (induction y) (simp_all add: mul_scalar_def power_mult_distrib algebra_simps)

lemma norm_t_mul_scalar: "norm_t (mul_scalar y k) = \<bar>k\<bar> * norm_t y"
  by (simp add: norm_t_def sum_sq_mul_scalar real_sqrt_mult)

lemma norm_t_nonneg: "0 \<le> norm_t y"
  unfolding norm_t_def by (intro real_sqrt_ge_zero sum_list_nonneg) auto

lemma sum_sq_zero_iff:
  "sum_list (map (\<lambda>v. v\<^sup>2) y) = 0 \<longleftrightarrow> (\<forall>v\<in>set y. v = (0::real))"
proof (induction y)
  case Nil
  show ?case by simp
next
  case (Cons a y)
  have nn: "0 \<le> sum_list (map (\<lambda>v. v\<^sup>2) y)"
    by (intro sum_list_nonneg) auto
  have "a\<^sup>2 + sum_list (map (\<lambda>v. v\<^sup>2) y) = 0 \<longleftrightarrow>
        a\<^sup>2 = 0 \<and> sum_list (map (\<lambda>v. v\<^sup>2) y) = 0"
    using nn by (intro add_nonneg_eq_0_iff) auto
  with Cons show ?case by simp
qed

lemma norm_t_zero_iff: "norm_t y = 0 \<longleftrightarrow> (\<forall>v\<in>set y. v = 0)"
  by (simp add: norm_t_def sum_sq_zero_iff)

lemma norm_t_pos_iff: "0 < norm_t y \<longleftrightarrow> (\<exists>v\<in>set y. v \<noteq> 0)"
  using norm_t_nonneg [of y] norm_t_zero_iff [of y] by fastforce

text \<open>A run of the loop that returns did not start from a tensor of norm zero.\<close>

lemma doubling_loop_Some_nonzero:
  assumes "doubling_loop y = Some z"
  shows "norm_t y \<noteq> 0"
proof (rule doubling_loop.raw_induct [where P = "\<lambda>y z. norm_t y \<noteq> 0", OF _ assms])
  fix loop y z
  assume IH: "\<And>y z. loop y = Some z \<Longrightarrow> norm_t y \<noteq> 0"
    and step: "(if norm_t y < 1000 then loop (mul_scalar y 2) else Some y) = Some z"
  show "norm_t y \<noteq> 0"
  proof
    assume z: "norm_t y = 0"
    then have "loop (mul_scalar y 2) = Some z" using step by simp
    then have "norm_t (mul_scalar y 2) \<noteq> 0" by (rule IH)
    then show False using z by (simp add: norm_t_mul_scalar)
  qed
qed

lemma doubling_loop_zero: "norm_t y = 0 \<Longrightarrow> doubling_loop y = None"
  using doubling_loop_Some_nonzero [of y] by (cases "doubling_loop y") auto

lemma do_some_doubling_zero: "\<forall>v\<in>set x. v = 0 \<Longrightarrow> do_some_doubling x = None"
  unfolding do_some_doubling_def
  by (rule doubling_loop_zero) (simp add: norm_t_mul_scalar norm_t_zero_iff)

text \<open>Once \<open>n\<close> doublings are enough to pass the threshold, the loop returns.\<close>

lemma doubling_loop_reaches:
  "0 < norm_t y \<Longrightarrow> 1000 \<le> 2 ^ n * norm_t y \<Longrightarrow>
     \<exists>z. doubling_loop y = Some z \<and> 1000 \<le> norm_t z"
proof (induction n arbitrary: y)
  case 0
  then have "\<not> norm_t y < 1000" by simp
  then have "doubling_loop y = Some y" by (subst doubling_loop.simps) simp
  with 0 show ?case by simp
next
  case (Suc n)
  show ?case
  proof (cases "norm_t y < 1000")
    case True
    have "0 < norm_t (mul_scalar y 2)"
      using Suc.prems(1) by (simp add: norm_t_mul_scalar)
    moreover have "1000 \<le> 2 ^ n * norm_t (mul_scalar y 2)"
      using Suc.prems(2) by (simp add: norm_t_mul_scalar mult.assoc)
    ultimately obtain z where "doubling_loop (mul_scalar y 2) = Some z" "1000 \<le> norm_t z"
      using Suc.IH by blast
    then show ?thesis using True by (subst doubling_loop.simps) simp
  next
    case False
    then have "doubling_loop y = Some y" by (subst doubling_loop.simps) simp
    with False show ?thesis by simp
  qed
qed

lemma doubling_loop_terminates:
  assumes "0 < norm_t y"
  shows "\<exists>z. doubling_loop y = Some z \<and> 1000 \<le> norm_t z"
proof -
  obtain n where "1000 / norm_t y < 2 ^ n"
    using real_arch_pow [of 2 "1000 / norm_t y"] by auto
  then have "1000 \<le> 2 ^ n * norm_t y"
    using assms by (simp add: field_simps)
  with assms show ?thesis by (rule doubling_loop_reaches)
qed

text \<open>Two runs, step by step.\<close>

lemma do_some_doubling_run_1: "do_some_doubling [300, 400, 0] = Some [600, 800, 0]"
  unfolding do_some_doubling_def
  by (subst doubling_loop.simps) (simp add: mul_scalar_def norm_t_def)

lemma do_some_doubling_run_2: "do_some_doubling [3, 4] = Some [768, 1024]"
  unfolding do_some_doubling_def
  by (subst doubling_loop.simps, simp add: mul_scalar_def norm_t_def)+

text \<open>
  Claim C4, as amended. From every input tensor with at least one element other than
  zero, \<open>do_some_doubling\<close> (and with it the inline loop of cell 42) returns, and the
  tensor it returns has norm at least 1000.
\<close>

theorem do_some_doubling_terminates:
  "\<exists>v\<in>set x. v \<noteq> 0 \<Longrightarrow> \<exists>y. do_some_doubling x = Some y \<and> 1000 \<le> norm_t y"
  unfolding do_some_doubling_def
  by (rule doubling_loop_terminates) (simp add: norm_t_mul_scalar norm_t_pos_iff)

theorem do_some_doubling_terminates_witness:
  "(\<exists>v\<in>set [300, 400, 0::real]. v \<noteq> 0) \<and>
   (\<exists>y. do_some_doubling [300, 400, 0] = Some y \<and> 1000 \<le> norm_t y)"
  using do_some_doubling_terminates [of "[300, 400, 0]"] by simp

text \<open>
  Claim C4 as written fails at the zero tensor: doubling keeps it at zero, its norm
  stays below 1000, and the loop never returns.
\<close>

theorem do_some_doubling_zero_counterexample:
  "do_some_doubling [0, 0, 0] = None"
  by (rule do_some_doubling_zero) simp

section \<open>The Jacobian of \<open>exp_adder\<close>\<close>








lemma is_jacobianI:
  assumes "f x = Some out" and "out \<noteq> []" and "length J = length out"
    and "\<And>i. i < length out \<Longrightarrow> length (J ! i) = length x"
    and "\<And>i j. i < length out \<Longrightarrow> j < length x \<Longrightarrow>
       ((\<lambda>t. the (f (x[j := t])) ! i) has_real_derivative J ! i ! j) (at (x ! j))"
  shows "is_jacobian f x J"
  unfolding is_jacobian_def using assms by blast




text \<open>
  What the call returns when a one-element \<open>x\<close> meets a three-element \<open>y\<close>: the sum is
  broadcast to three outputs, so the Jacobian in \<open>x\<close> is a column of three rows.
\<close>

lemma exp_adder_singleton_x: "exp_adder [t] [0, 0, 0] = Some [2 * exp t, 2 * exp t, 2 * exp t]"
  by (simp add: exp_adder_def add_t_def scalar_mul_def exp_t_def)

lemma exp_adder_broadcast_y:
  "length y = 3 \<Longrightarrow> exp_adder [0] y = Some (map (\<lambda>v. 2 + 3 * v) y)"
  by (simp add: exp_adder_def add_t_def scalar_mul_def exp_t_def comp_def)

lemma exp_adder_broadcast_jacobian:
  "jacobian_pair exp_adder [0] [0, 0, 0] ([[2], [2], [2]], [[3, 0, 0], [0, 3, 0], [0, 0, 3]])"
proof -
  have "is_jacobian (\<lambda>x'. exp_adder x' [0, 0, 0]) [0] [[2], [2], [2]]"
  proof (rule is_jacobianI)
    show "exp_adder [0] [0, 0, 0] = Some [2, 2, 2]"
      by (simp add: exp_adder_singleton_x)
    show "[2::real, 2, 2] \<noteq> []" by simp
    show "length [[2::real], [2], [2]] = length [2::real, 2, 2]" by simp
  next
    fix i :: nat assume "i < length [2::real, 2, 2]"
    then show "length ([[2::real], [2], [2]] ! i) = length [0::real]"
      by (simp add: nth_Cons split: nat.splits)
  next
    fix i j :: nat assume "i < length [2::real, 2, 2]" and "j < length [0::real]"
    then have j: "j = 0" and i: "i = 0 \<or> i = 1 \<or> i = 2" by auto
    have "((\<lambda>t. 2 * exp t) has_real_derivative 2) (at 0)"
      by (auto intro!: derivative_eq_intros)
    then show "((\<lambda>t. the (exp_adder ([0][j := t]) [0, 0, 0]) ! i) has_real_derivative
            [[2], [2], [2]] ! i ! j) (at ([0] ! j))"
      using i j by (auto simp add: exp_adder_singleton_x)
  qed
  moreover have "is_jacobian (\<lambda>y'. exp_adder [0] y') [0, 0, 0] [[3, 0, 0], [0, 3, 0], [0, 0, 3]]"
  proof (rule is_jacobianI)
    show "exp_adder [0] [0, 0, 0] = Some [2, 2, 2]"
      by (simp add: exp_adder_singleton_x)
    show "[2::real, 2, 2] \<noteq> []" by simp
    show "length [[3::real, 0, 0], [0, 3, 0], [0, 0, 3]] = length [2::real, 2, 2]" by simp
  next
    fix i :: nat assume "i < length [2::real, 2, 2]"
    then show "length ([[3::real, 0, 0], [0, 3, 0], [0, 0, 3]] ! i) = length [0::real, 0, 0]"
      by (simp add: nth_Cons split: nat.splits)
  next
    fix i j :: nat assume "i < length [2::real, 2, 2]" and "j < length [0::real, 0, 0]"
    then have i: "i = 0 \<or> i = 1 \<or> i = 2" and j: "j = 0 \<or> j = 1 \<or> j = 2" by auto
    have d3: "((\<lambda>t. 2 + 3 * t) has_real_derivative 3) (at 0)"
      by (auto intro!: derivative_eq_intros)
    have d0: "((\<lambda>t. 2::real) has_real_derivative 0) (at 0)"
      by simp
    show "((\<lambda>t. the (exp_adder [0] ([0, 0, 0][j := t])) ! i) has_real_derivative
            [[3, 0, 0], [0, 3, 0], [0, 0, 3]] ! i ! j) (at ([0, 0, 0] ! j))"
      using i j d3 d0 by (auto simp add: exp_adder_broadcast_y)
  qed
  ultimately show ?thesis by (simp add: jacobian_pair_def)
qed

text \<open>On empty inputs the output is empty, and the call returns no pair of Jacobians.\<close>

lemma exp_adder_empty: "exp_adder [] [] = Some []"
  by (simp add: exp_adder_def add_t_def scalar_mul_def exp_t_def)

lemma exp_adder_empty_no_jacobian: "\<not> jacobian_pair exp_adder [] [] JJ"
  by (simp add: jacobian_pair_def is_jacobian_def exp_adder_empty)




end
